theory Spec2Isabelle
  imports Main "HOL-Library.Char_ord" "HOL-Library.List_Lexorder" "HOL-Library.Sublist"
begin

section \<open>Data model of \<open>torchdynamo/variable_tracker.py\<close>\<close>

text \<open>
  Exceptions of the source are values. \<open>Unimplemented\<close> is the graph-break signal raised by
  \<open>unimplemented(...)\<close>; the others are the Python exceptions of the same name.
\<close>

datatype error =
    AssertionError
  | NotImplementedError
  | Unimplemented
  | StopIteration
  | TypeError
  | ValueError
  | IndexError
  | RecursionError

text \<open>
  The host values a variable can denote as a Python constant: \<open>None\<close>, integers (a \<open>bool\<close>
  acts as the integer 0 or 1 in indexing, key equality and ordering, and is not distinguished),
  strings, tuples, lists, \<open>slice\<close> objects, builtin functions (by name) and list iterators.
\<close>

datatype pyval =
    PNone
  | PInt int
  | PStr string
  | PTuple "pyval list"
  | PList "pyval list"
  | PSlice pyval pyval pyval
  | PBuiltin string
  | PListIter "pyval list"

text \<open>The two flags of \<open>config\<close> that the modelled code reads.\<close>

record config =
  dynamic_propagation :: bool
  dynamic_shapes :: bool

text \<open>The optional metadata fields of \<open>TensorVariable\<close> (\<open>None\<close> is "unknown").\<close>

record tensor_props =
  dtype :: "string option"
  device :: "string option"
  ndim :: "int option"
  size :: "int list option"
  stride :: "int list option"
  requires_grad :: "bool option"

text \<open>
  One constructor per modelled subclass of \<open>VariableTracker\<close>. The first three fields of
  each are those of the base class: \<open>guards\<close>, \<open>source\<close> and \<open>mutable_local\<close>. Guards and
  sources come from modules outside this file and are type parameters. A \<open>MutableLocal()\<close>
  marker has no payload, only an identity, which is a natural number here. A proxy is the
  index of its node in the graph under construction. The \<open>OrderedDict\<close> of a
  \<open>ConstDictVariable\<close> is an association list in insertion order.
\<close>

datatype ('g, 's) var =
    ConstantVariable (guards: "'g set") (source: "'s option") (mutable_local: "nat option")
      (cvalue: pyval)
  | TensorVariable (guards: "'g set") (source: "'s option") (mutable_local: "nat option")
      (proxy: nat) (props: tensor_props)
  | ListVariable (guards: "'g set") (source: "'s option") (mutable_local: "nat option")
      (items: "('g, 's) var list")
  | TupleVariable (guards: "'g set") (source: "'s option") (mutable_local: "nat option")
      (items: "('g, 's) var list")
  | SliceVariable (guards: "'g set") (source: "'s option") (mutable_local: "nat option")
      (items: "('g, 's) var list")
  | ConstDictVariable (guards: "'g set") (source: "'s option") (mutable_local: "nat option")
      (entries: "(pyval \<times> ('g, 's) var) list")
  | ListIteratorVariable (guards: "'g set") (source: "'s option") (mutable_local: "nat option")
      (items: "('g, 's) var list") (index: int)
  | BuiltinVariable (guards: "'g set") (source: "'s option") (mutable_local: "nat option")
      (fn: string)
  | UnknownVariable (guards: "'g set") (source: "'s option") (mutable_local: "nat option")

section \<open>Guard propagation\<close>

text \<open>
  An argument of \<open>VariableTracker.propagate\<close>: \<open>visit\<close> descends into a \<open>list\<close>, a \<open>tuple\<close>,
  a \<open>dict_values\<close> and an \<open>odict_values\<close> view and treats everything else as a leaf, which is
  either a tracked variable or some other object.
\<close>

datatype ('g, 's) pyarg =
    PyList "('g, 's) pyarg list"
  | PyTuple "('g, 's) pyarg list"
  | PyDictValues "('g, 's) pyarg list"
  | PyODictValues "('g, 's) pyarg list"
  | PyVar "('g, 's) var"
  | PyOther pyval

text \<open>
  The inner function \<open>visit\<close> updates the set \<open>guards\<close> of the enclosing call; the set is
  passed in and returned. A failed \<open>assert\<close> ends the walk.
\<close>

fun visit :: "('g, 's) pyarg \<Rightarrow> 'g set \<Rightarrow> error + 'g set"
  and visit_each :: "('g, 's) pyarg list \<Rightarrow> 'g set \<Rightarrow> error + 'g set" where
  "visit (PyList xs) acc = visit_each xs acc"
| "visit (PyTuple xs) acc = visit_each xs acc"
| "visit (PyDictValues xs) acc = visit_each xs acc"
| "visit (PyODictValues xs) acc = visit_each xs acc"
| "visit (PyVar v) acc = Inr (acc \<union> guards v)"
| "visit (PyOther x) acc = Inl AssertionError"
| "visit_each [] acc = Inr acc"
| "visit_each (x # xs) acc =
     (case visit x acc of Inl e \<Rightarrow> Inl e | Inr acc' \<Rightarrow> visit_each xs acc')"

text \<open>
  \<open>propagate(*vars)\<close> visits the tuple of its positional arguments, starting from the empty
  set. The returned dict has the single key \<open>"guards"\<close>; its value is the result here.
\<close>

definition propagate :: "('g, 's) pyarg list \<Rightarrow> error + 'g set" where
  "propagate vars = visit (PyTuple vars) {}"



definition union_guards :: "('g, 's) var list \<Rightarrow> 'g set" where
  "union_guards vs = \<Union> (set (map guards vs))"

section \<open>Constructors and \<open>clone\<close>\<close>

text \<open>
  \<open>VariableTracker.__init__\<close> stores \<open>guards or set()\<close>, \<open>source\<close> and \<open>mutable_local\<close>; an
  absent or empty \<open>guards\<close> argument is the empty set. Each subclass constructor below takes
  these three keyword arguments last. A constructor with an \<open>assert\<close> that can fail
  returns an exception or the new object; the others return the new object.
\<close>

definition ConstantVariable_init ::
  "pyval \<Rightarrow> 'g set \<Rightarrow> 's option \<Rightarrow> nat option \<Rightarrow> ('g, 's) var" where
  "ConstantVariable_init v G src ml = ConstantVariable G src ml v"

definition TensorVariable_init ::
  "config \<Rightarrow> nat \<Rightarrow> tensor_props \<Rightarrow> 'g set \<Rightarrow> 's option \<Rightarrow> nat option \<Rightarrow> error + ('g, 's) var" where
  "TensorVariable_init cfg p ps G src ml =
     (if dtype ps \<noteq> None \<or> \<not> dynamic_propagation cfg
      then Inr (TensorVariable G src ml p ps) else Inl AssertionError)"

text \<open>
  \<open>BaseListVariable.__init__\<close> copies the guard set and then adds the guards of every item.
\<close>

definition BaseListVariable_guards :: "'g set \<Rightarrow> ('g, 's) var list \<Rightarrow> 'g set" where
  "BaseListVariable_guards G xs = fold (\<lambda>item acc. acc \<union> guards item) xs G"

definition ListVariable_init ::
  "('g, 's) var list \<Rightarrow> 'g set \<Rightarrow> 's option \<Rightarrow> nat option \<Rightarrow> ('g, 's) var" where
  "ListVariable_init xs G src ml = ListVariable (BaseListVariable_guards G xs) src ml xs"

definition TupleVariable_init ::
  "('g, 's) var list \<Rightarrow> 'g set \<Rightarrow> 's option \<Rightarrow> nat option \<Rightarrow> ('g, 's) var" where
  "TupleVariable_init xs G src ml = TupleVariable (BaseListVariable_guards G xs) src ml xs"

text \<open>
  \<open>SliceVariable.__init__\<close>: \<open>start, stop, step = [ConstantVariable(None)] * 3\<close>, then the
  arguments overwrite one, two or three of them; any other number is \<open>assert False\<close>.
\<close>

definition const_None :: "('g, 's) var" where
  "const_None = ConstantVariable_init PNone {} None None"

fun SliceVariable_init ::
  "('g, 's) var list \<Rightarrow> 'g set \<Rightarrow> 's option \<Rightarrow> nat option \<Rightarrow> error + ('g, 's) var" where
  "SliceVariable_init [stop] G src ml =
     Inr (SliceVariable (BaseListVariable_guards G [const_None, stop, const_None]) src ml
            [const_None, stop, const_None])"
| "SliceVariable_init [start, stop] G src ml =
     Inr (SliceVariable (BaseListVariable_guards G [start, stop, const_None]) src ml
            [start, stop, const_None])"
| "SliceVariable_init [start, stop, step] G src ml =
     Inr (SliceVariable (BaseListVariable_guards G [start, stop, step]) src ml
            [start, stop, step])"
| "SliceVariable_init xs G src ml = Inl AssertionError"

definition ListIteratorVariable_init ::
  "('g, 's) var list \<Rightarrow> int \<Rightarrow> 'g set \<Rightarrow> 's option \<Rightarrow> nat option \<Rightarrow> ('g, 's) var" where
  "ListIteratorVariable_init xs i G src ml = ListIteratorVariable G src ml xs i"

definition BuiltinVariable_init ::
  "string \<Rightarrow> 'g set \<Rightarrow> 's option \<Rightarrow> nat option \<Rightarrow> ('g, 's) var" where
  "BuiltinVariable_init f G src ml = BuiltinVariable G src ml f"

text \<open>
  \<open>ConstDictVariable.__init__\<close> takes either an \<open>OrderedDict\<close>, kept as it is, or a plain
  \<open>dict\<close>, whose entries are re-inserted in the order of \<open>sorted(items.keys())\<close>. Neither
  path reads the guards of the values. \<open>sorted\<close> compares integers with integers and strings
  with strings (tuples and lists of such, lexicographically); any other comparison it needs
  raises \<open>TypeError\<close>.
\<close>

fun py_lt :: "pyval \<Rightarrow> pyval \<Rightarrow> error + bool"
  and py_lt_seq :: "pyval list \<Rightarrow> pyval list \<Rightarrow> error + bool" where
  "py_lt (PInt a) (PInt b) = Inr (a < b)"
| "py_lt (PStr a) (PStr b) = Inr (a < b)"
| "py_lt (PTuple xs) (PTuple ys) = py_lt_seq xs ys"
| "py_lt (PList xs) (PList ys) = py_lt_seq xs ys"
| "py_lt a b = Inl TypeError"
| "py_lt_seq [] [] = Inr False"
| "py_lt_seq [] (y # ys) = Inr True"
| "py_lt_seq (x # xs) [] = Inr False"
| "py_lt_seq (x # xs) (y # ys) = (if x = y then py_lt_seq xs ys else py_lt x y)"

text \<open>
  \<open>sorted\<close> as insertion from the right with Python's \<open><\<close>; on keys that are mutually
  comparable this is the ascending order Python returns, and a comparison that is not
  defined raises \<open>TypeError\<close>.
\<close>

fun py_insort :: "pyval \<Rightarrow> pyval list \<Rightarrow> error + pyval list" where
  "py_insort x [] = Inr [x]"
| "py_insort x (y # ys) =
     (case py_lt x y of
        Inl e \<Rightarrow> Inl e
      | Inr True \<Rightarrow> Inr (x # y # ys)
      | Inr False \<Rightarrow> (case py_insort x ys of Inl e \<Rightarrow> Inl e | Inr zs \<Rightarrow> Inr (y # zs)))"

fun py_sorted :: "pyval list \<Rightarrow> error + pyval list" where
  "py_sorted [] = Inr []"
| "py_sorted (x # xs) =
     (case py_sorted xs of Inl e \<Rightarrow> Inl e | Inr ys \<Rightarrow> py_insort x ys)"

datatype ('g, 's) items_arg =
    OrderedDict "(pyval \<times> ('g, 's) var) list"
  | PlainDict "(pyval \<times> ('g, 's) var) list"

fun ConstDictVariable_init ::
  "('g, 's) items_arg \<Rightarrow> 'g set \<Rightarrow> 's option \<Rightarrow> nat option \<Rightarrow> error + ('g, 's) var" where
  "ConstDictVariable_init (OrderedDict es) G src ml = Inr (ConstDictVariable G src ml es)"
| "ConstDictVariable_init (PlainDict es) G src ml =
     (case py_sorted (map fst es) of
        Inl e \<Rightarrow> Inl e
      | Inr ks \<Rightarrow> Inr (ConstDictVariable G src ml (map (\<lambda>k. (k, the (map_of es k))) ks)))"

text \<open>
  \<open>clone(guards=G')\<close>: the constructor of the receiver's own class is called on the
  receiver's fields with \<open>guards\<close> replaced.
\<close>

fun clone_guards :: "config \<Rightarrow> ('g, 's) var \<Rightarrow> 'g set \<Rightarrow> error + ('g, 's) var" where
  "clone_guards cfg (ConstantVariable G src ml v) G' = Inr (ConstantVariable_init v G' src ml)"
| "clone_guards cfg (TensorVariable G src ml p ps) G' = TensorVariable_init cfg p ps G' src ml"
| "clone_guards cfg (ListVariable G src ml xs) G' = Inr (ListVariable_init xs G' src ml)"
| "clone_guards cfg (TupleVariable G src ml xs) G' = Inr (TupleVariable_init xs G' src ml)"
| "clone_guards cfg (SliceVariable G src ml xs) G' = SliceVariable_init xs G' src ml"
| "clone_guards cfg (ConstDictVariable G src ml es) G' =
     ConstDictVariable_init (OrderedDict es) G' src ml"
| "clone_guards cfg (ListIteratorVariable G src ml xs i) G' =
     Inr (ListIteratorVariable_init xs i G' src ml)"
| "clone_guards cfg (BuiltinVariable G src ml f) G' = Inr (BuiltinVariable_init f G' src ml)"
| "clone_guards cfg (UnknownVariable G src ml) G' = Inr (UnknownVariable G' src ml)"

definition add_guard :: "config \<Rightarrow> ('g, 's) var \<Rightarrow> 'g \<Rightarrow> error + ('g, 's) var" where
  "add_guard cfg v g = clone_guards cfg v (guards v \<union> {g})"

definition add_guards :: "config \<Rightarrow> ('g, 's) var \<Rightarrow> 'g set \<Rightarrow> error + ('g, 's) var" where
  "add_guards cfg v gs = clone_guards cfg v (guards v \<union> gs)"

text \<open>
  What the constructor of its class has checked on every existing variable: a tensor has a
  \<open>dtype\<close> unless dynamic propagation is off, and a slice has its three items.
\<close>

fun constructed :: "config \<Rightarrow> ('g, 's) var \<Rightarrow> bool" where
  "constructed cfg (TensorVariable G src ml p ps) =
     (dtype ps \<noteq> None \<or> \<not> dynamic_propagation cfg)"
| "constructed cfg (SliceVariable G src ml xs) = (length xs = 3)"
| "constructed cfg v = True"

section \<open>Python constants\<close>

text \<open>
  \<open>as_python_constant\<close> of each class; the base class raises \<open>NotImplementedError\<close>. The
  list comprehension over the items stops at the first item that raises.
\<close>

fun py_slice :: "pyval list \<Rightarrow> error + pyval" where
  "py_slice [a] = Inr (PSlice PNone a PNone)"
| "py_slice [a, b] = Inr (PSlice a b PNone)"
| "py_slice [a, b, c] = Inr (PSlice a b c)"
| "py_slice vs = Inl TypeError"

fun as_python_constant :: "('g, 's) var \<Rightarrow> error + pyval"
  and as_python_constants :: "('g, 's) var list \<Rightarrow> error + pyval list" where
  "as_python_constant (ConstantVariable G src ml v) = Inr v"
| "as_python_constant (TensorVariable G src ml p ps) = Inl NotImplementedError"
| "as_python_constant (ListVariable G src ml xs) =
     (case as_python_constants xs of Inl e \<Rightarrow> Inl e | Inr vs \<Rightarrow> Inr (PList vs))"
| "as_python_constant (TupleVariable G src ml xs) =
     (case as_python_constants xs of Inl e \<Rightarrow> Inl e | Inr vs \<Rightarrow> Inr (PTuple vs))"
| "as_python_constant (SliceVariable G src ml xs) =
     (case as_python_constants xs of Inl e \<Rightarrow> Inl e | Inr vs \<Rightarrow> py_slice vs)"
| "as_python_constant (ConstDictVariable G src ml es) = Inl NotImplementedError"
| "as_python_constant (ListIteratorVariable G src ml xs i) =
     (if i > 0 then Inl NotImplementedError
      else case as_python_constants xs of Inl e \<Rightarrow> Inl e | Inr vs \<Rightarrow> Inr (PListIter vs))"
| "as_python_constant (BuiltinVariable G src ml f) = Inr (PBuiltin f)"
| "as_python_constant (UnknownVariable G src ml) = Inl NotImplementedError"
| "as_python_constants [] = Inr []"
| "as_python_constants (x # xs) =
     (case as_python_constant x of
        Inl e \<Rightarrow> Inl e
      | Inr v \<Rightarrow> (case as_python_constants xs of Inl e \<Rightarrow> Inl e | Inr vs \<Rightarrow> Inr (v # vs)))"

text \<open>\<open>is_python_constant\<close> catches \<open>NotImplementedError\<close> only.\<close>

definition is_python_constant :: "('g, 's) var \<Rightarrow> error + bool" where
  "is_python_constant v =
     (case as_python_constant v of
        Inr c \<Rightarrow> Inr True
      | Inl NotImplementedError \<Rightarrow> Inr False
      | Inl e \<Rightarrow> Inl e)"

text \<open>Operations of the host language on lists, with their exceptions.\<close>

definition py_index :: "pyval \<Rightarrow> error + int" where
  "py_index v = (case v of PInt i \<Rightarrow> Inr i | _ \<Rightarrow> Inl TypeError)"

definition py_getitem :: "'a list \<Rightarrow> int \<Rightarrow> error + 'a" where
  "py_getitem xs i =
     (let n = int (length xs); j = (if i < 0 then i + n else i)
      in if 0 \<le> j \<and> j < n then Inr (xs ! nat j) else Inl IndexError)"

definition py_insert :: "'a list \<Rightarrow> int \<Rightarrow> 'a \<Rightarrow> 'a list" where
  "py_insert xs i x =
     (let n = int (length xs); j = (if i < 0 then max 0 (i + n) else min i n)
      in take (nat j) xs @ [x] @ drop (nat j) xs)"

definition py_pop :: "'a list \<Rightarrow> int \<Rightarrow> error + ('a \<times> 'a list)" where
  "py_pop xs i =
     (let n = int (length xs); j = (if i < 0 then i + n else i)
      in if 0 \<le> j \<and> j < n then Inr (xs ! nat j, take (nat j) xs @ drop (Suc (nat j)) xs)
         else Inl IndexError)"

fun hashable :: "pyval \<Rightarrow> bool" where
  "hashable (PList vs) = False"
| "hashable (PSlice a b c) = False"
| "hashable (PTuple vs) = list_all hashable vs"
| "hashable v = True"

text \<open>\<open>d[k] = v\<close> on an \<open>OrderedDict\<close>: a present key keeps its place, a new key goes last.\<close>

definition od_setitem :: "('k \<times> 'v) list \<Rightarrow> 'k \<Rightarrow> 'v \<Rightarrow> ('k \<times> 'v) list" where
  "od_setitem es k v =
     (if k \<in> set (map fst es)
      then map (\<lambda>(k', v'). if k' = k then (k', v) else (k', v')) es
      else es @ [(k, v)])"

section \<open>The driver and object identities\<close>

text \<open>
  What the modelled methods change outside their result: the \<open>MutableLocal()\<close> markers
  created so far, numbered by \<open>next_token\<close>, so that a new marker is different from every
  earlier one; the substitutions requested from the driver; and the graph under construction.
\<close>

text \<open>
  An example value as \<open>TensorVariable.create\<close> tells them apart: a tensor with its
  metadata, a plain tuple, \<open>None\<close>, or anything else. (Named tuples, for which a
  \<open>NamedTupleVariable\<close> is built, are outside the modelled classes.)
\<close>

record tensor_sample =
  sample_dtype :: string
  sample_device :: string
  sample_size :: "int list"
  sample_stride :: "int list"
  sample_requires_grad :: bool

datatype example =
    ExTensor tensor_sample
  | ExTuple "example list"
  | ExNone
  | ExOther

datatype node_arg = ProxyArg nat | ConstArg pyval

record node =
  op :: string
  target :: string
  node_args :: "node_arg list"
  meta_example_value :: "example option"

record ('g, 's) tx =
  next_token :: nat
  replacements :: "(('g, 's) var \<times> ('g, 's) var) list"
  graph :: "node list"

definition MutableLocal :: "('g, 's) tx \<Rightarrow> nat \<times> ('g, 's) tx" where
  "MutableLocal tx = (next_token tx, tx\<lparr>next_token := Suc (next_token tx)\<rparr>)"

text \<open>
  Modelled from the spec: \<open>replace_all(old, new)\<close> belongs to the driver \<open>tx\<close>, which is
  outside this file, and propagates a substitution of \<open>new\<close> for \<open>old\<close>. Of the call only the
  request is recorded, in call order.
\<close>

definition replace_all :: "('g, 's) var \<Rightarrow> ('g, 's) var \<Rightarrow> ('g, 's) tx \<Rightarrow> ('g, 's) tx" where
  "replace_all old new tx = tx\<lparr>replacements := replacements tx @ [(old, new)]\<rparr>"

text \<open>
  Modelled from the spec: \<open>create_proxy(kind, target, args, kwargs)\<close> of the driver allocates a
  new graph node. The node is appended to the graph and its index is the proxy returned.
\<close>

definition create_proxy ::
  "string \<Rightarrow> string \<Rightarrow> node_arg list \<Rightarrow> ('g, 's) tx \<Rightarrow> nat \<times> ('g, 's) tx" where
  "create_proxy kind tgt as tx =
     (length (graph tx),
      tx\<lparr>graph := graph tx @
           [\<lparr>op = kind, target = tgt, node_args = as, meta_example_value = None\<rparr>]\<rparr>)"

text \<open>The arguments every \<open>call_method\<close> and \<open>call_function\<close> hands to \<open>propagate\<close>.\<close>

definition call_options ::
  "('g, 's) var \<Rightarrow> ('g, 's) var list \<Rightarrow> (string \<times> ('g, 's) var) list \<Rightarrow> error + 'g set" where
  "call_options self args kwargs =
     propagate [PyVar self, PyList (map PyVar args), PyDictValues (map (PyVar \<circ> snd) kwargs)]"

section \<open>\<open>ListVariable.call_method\<close>\<close>

text \<open>
  The result is the exception or the returned object (\<open>None\<close> when the method returns no
  tracked variable), together with the state after the call. The last branch is
  \<open>VariableTracker.call_method\<close>, which raises \<open>unimplemented\<close>.
\<close>

definition ListVariable_call_method ::
  "('g, 's) var \<Rightarrow> string \<Rightarrow> ('g, 's) var list \<Rightarrow> (string \<times> ('g, 's) var) list \<Rightarrow> ('g, 's) tx
     \<Rightarrow> (error + ('g, 's) var option) \<times> ('g, 's) tx" where
  "ListVariable_call_method self name args kwargs tx =
     (case call_options self args kwargs of
        Inl e \<Rightarrow> (Inl e, tx)
      | Inr options \<Rightarrow>
          if name = ''append'' \<and> mutable_local self \<noteq> None then
            if kwargs \<noteq> [] then (Inl AssertionError, tx)
            else (case args of
                    [arg] \<Rightarrow>
                      let (m, tx1) = MutableLocal tx;
                          tx2 = replace_all self
                                  (ListVariable_init (items self @ [arg]) options None (Some m)) tx1
                      in (Inr (Some (ConstantVariable_init PNone options None None)), tx2)
                  | _ \<Rightarrow> (Inl ValueError, tx))
          else if name = ''insert'' \<and> mutable_local self \<noteq> None then
            if kwargs \<noteq> [] then (Inl AssertionError, tx)
            else (case args of
                    [idx, v] \<Rightarrow>
                      (case as_python_constant idx of
                         Inl e \<Rightarrow> (Inl e, tx)
                       | Inr c \<Rightarrow>
                           (case py_index c of
                              Inl e \<Rightarrow> (Inl e, tx)
                            | Inr i \<Rightarrow>
                                let (m, tx1) = MutableLocal tx;
                                    tx2 = replace_all self
                                            (ListVariable_init (py_insert (items self) i v)
                                               options None (Some m)) tx1
                                in (Inr (Some (ConstantVariable_init PNone options None None)),
                                    tx2)))
                  | _ \<Rightarrow> (Inl ValueError, tx))
          else if name = ''pop'' \<and> mutable_local self \<noteq> None then
            if kwargs \<noteq> [] then (Inl AssertionError, tx)
            else (case as_python_constants args of
                    Inl e \<Rightarrow> (Inl e, tx)
                  | Inr cs \<Rightarrow>
                      (case (case cs of
                               [] \<Rightarrow> py_pop (items self) (- 1)
                             | [c] \<Rightarrow> (case py_index c of
                                          Inl e \<Rightarrow> Inl e
                                        | Inr i \<Rightarrow> py_pop (items self) i)
                             | _ \<Rightarrow> Inl TypeError) of
                         Inl e \<Rightarrow> (Inl e, tx)
                       | Inr (result, rest) \<Rightarrow>
                           let (m, tx1) = MutableLocal tx;
                               tx2 = replace_all self
                                       (ListVariable_init rest options None (Some m)) tx1
                           in (Inr (Some result), tx2)))
          else (Inl Unimplemented, tx))"

section \<open>\<open>ListIteratorVariable.next_variables\<close>\<close>

text \<open>
  The pair is built left to right: the item with the iterator's guards first, then the new
  iterator with its new marker. The new iterator gets the guards \<open>propagate([self])\<close> and
  no source.
\<close>

definition next_variables ::
  "config \<Rightarrow> ('g, 's) var \<Rightarrow> ('g, 's) tx
     \<Rightarrow> (error + ('g, 's) var \<times> ('g, 's) var) \<times> ('g, 's) tx" where
  "next_variables cfg self tx =
     (if mutable_local self = None then (Inl AssertionError, tx)
      else if index self \<ge> int (length (items self)) then (Inl StopIteration, tx)
      else (case py_getitem (items self) (index self) of
              Inl e \<Rightarrow> (Inl e, tx)
            | Inr item \<Rightarrow>
                (case add_guards cfg item (guards self) of
                   Inl e \<Rightarrow> (Inl e, tx)
                 | Inr item' \<Rightarrow>
                     let (m, tx1) = MutableLocal tx
                     in (case propagate [PyList [PyVar self]] of
                           Inl e \<Rightarrow> (Inl e, tx1)
                         | Inr options \<Rightarrow>
                             (Inr (item',
                                   ListIteratorVariable_init (items self) (index self + 1)
                                     options None (Some m)), tx1)))))"

text \<open>
  \<open>k\<close> calls of \<open>next\<close> in a row, each on the iterator the previous call returned: the
  iterator after them, or the first exception.
\<close>

fun advance ::
  "config \<Rightarrow> nat \<Rightarrow> ('g, 's) var \<Rightarrow> ('g, 's) tx \<Rightarrow> (error + ('g, 's) var) \<times> ('g, 's) tx" where
  "advance cfg 0 it tx = (Inr it, tx)"
| "advance cfg (Suc k) it tx =
     (case next_variables cfg it tx of
        (Inl e, tx1) \<Rightarrow> (Inl e, tx1)
      | (Inr (item, it1), tx1) \<Rightarrow> advance cfg k it1 tx1)"

section \<open>\<open>ConstDictVariable.call_method\<close>\<close>

text \<open>
  The \<open>__setattr__\<close> branch ends without a \<open>return\<close> statement, so the call returns
  \<open>None\<close>, no tracked variable. Its condition \<open>args and args[0].is_python_constant() and
  self.mutable_local\<close> is evaluated left to right.
\<close>

definition ConstDictVariable_call_method ::
  "('g, 's) var \<Rightarrow> string \<Rightarrow> ('g, 's) var list \<Rightarrow> (string \<times> ('g, 's) var) list \<Rightarrow> ('g, 's) tx
     \<Rightarrow> (error + ('g, 's) var option) \<times> ('g, 's) tx" where
  "ConstDictVariable_call_method self name args kwargs tx =
     (case call_options self args kwargs of
        Inl e \<Rightarrow> (Inl e, tx)
      | Inr options \<Rightarrow>
          if name = ''items'' then
            if args \<noteq> [] \<or> kwargs \<noteq> [] then (Inl AssertionError, tx)
            else (Inr (Some (TupleVariable_init
                    (map (\<lambda>(k, v). TupleVariable_init
                            [ConstantVariable_init k options None None, v] options None None)
                       (entries self))
                    options None None)), tx)
          else if name = ''keys'' then
            if args \<noteq> [] \<or> kwargs \<noteq> [] then (Inl AssertionError, tx)
            else (Inr (Some (TupleVariable_init
                    (map (\<lambda>(k, v). ConstantVariable_init k options None None) (entries self))
                    options None None)), tx)
          else if name = ''values'' then
            if args \<noteq> [] \<or> kwargs \<noteq> [] then (Inl AssertionError, tx)
            else (Inr (Some (TupleVariable_init (map snd (entries self)) options None None)), tx)
          else if name = ''__setattr__'' \<and> args \<noteq> [] then
            (case is_python_constant (hd args) of
               Inl e \<Rightarrow> (Inl e, tx)
             | Inr isconst \<Rightarrow>
                 if isconst \<and> mutable_local self \<noteq> None then
                   if \<not> (kwargs = [] \<and> length args = 2) then (Inl AssertionError, tx)
                   else (case as_python_constant (args ! 0) of
                           Inl e \<Rightarrow> (Inl e, tx)
                         | Inr key \<Rightarrow>
                             if \<not> hashable key then (Inl TypeError, tx)
                             else
                               let newval = od_setitem (entries self) key (args ! 1);
                                   (m, tx1) = MutableLocal tx
                               in (case ConstDictVariable_init (OrderedDict newval)
                                          options None (Some m) of
                                     Inl e \<Rightarrow> (Inl e, tx1)
                                   | Inr new \<Rightarrow> (Inr None, replace_all self new tx1)))
                 else (Inl Unimplemented, tx))
          else (Inl Unimplemented, tx))"

section \<open>\<open>TensorVariable.create\<close> and the builtin \<open>len\<close>\<close>

definition unknown_props :: tensor_props where
  "unknown_props = \<lparr>dtype = None, device = None, ndim = None, size = None, stride = None,
                      requires_grad = None\<rparr>"

definition specialize :: "config \<Rightarrow> tensor_sample \<Rightarrow> tensor_props" where
  "specialize cfg v =
     \<lparr>dtype = Some (sample_dtype v), device = Some (sample_device v),
      ndim = Some (int (length (sample_size v))),
      size = (if \<not> dynamic_shapes cfg then Some (sample_size v) else None),
      stride = (if \<not> dynamic_shapes cfg then Some (sample_stride v) else None),
      requires_grad = Some (sample_requires_grad v)\<rparr>"

definition node_meta :: "('g, 's) tx \<Rightarrow> nat \<Rightarrow> example option" where
  "node_meta tx p = (if p < length (graph tx) then meta_example_value (graph tx ! p) else None)"

definition node_op :: "('g, 's) tx \<Rightarrow> nat \<Rightarrow> string" where
  "node_op tx p = (if p < length (graph tx) then op (graph tx ! p) else [])"

definition set_node_meta :: "nat \<Rightarrow> example \<Rightarrow> ('g, 's) tx \<Rightarrow> ('g, 's) tx" where
  "set_node_meta p ev tx =
     tx\<lparr>graph := (graph tx)[p := (graph tx ! p)\<lparr>meta_example_value := Some ev\<rparr>]\<rparr>"

text \<open>
  The loop over a tuple example: one \<open>operator.getitem\<close> node and one recursive \<open>create\<close>
  per element, in order. \<open>rec\<close> is the recursive call.
\<close>

primrec unpack_examples ::
  "(nat \<Rightarrow> example option \<Rightarrow> ('g, 's) tx \<Rightarrow> (error + ('g, 's) var) \<times> ('g, 's) tx)
     \<Rightarrow> nat \<Rightarrow> int \<Rightarrow> example list \<Rightarrow> ('g, 's) tx \<Rightarrow> (error + ('g, 's) var list) \<times> ('g, 's) tx"
  where
  "unpack_examples rec p i [] tx = (Inr [], tx)"
| "unpack_examples rec p i (val # vals) tx =
     (let (q, tx1) = create_proxy ''call_function'' ''getitem'' [ProxyArg p, ConstArg (PInt i)] tx
      in case rec q (if val = ExNone then None else Some val) tx1 of
           (Inl e, tx2) \<Rightarrow> (Inl e, tx2)
         | (Inr v, tx2) \<Rightarrow>
             (case unpack_examples rec p (i + 1) vals tx2 of
                (Inl e, tx3) \<Rightarrow> (Inl e, tx3)
              | (Inr vs, tx3) \<Rightarrow> (Inr (v # vs), tx3)))"

text \<open>
  \<open>TensorVariable.create(proxy, example_value, nnmodule, **options)\<close>. Under dynamic
  propagation a missing example value is computed by running the node's target on the
  example values of its arguments; that computation belongs to the tensor library and is the
  parameter \<open>run\<close>. The first argument bounds the depth of the recursion, as the
  interpreter's recursion limit does.
\<close>

fun TensorVariable_create ::
  "nat \<Rightarrow> config \<Rightarrow> (('g, 's) tx \<Rightarrow> nat \<Rightarrow> error + example) \<Rightarrow> nat \<Rightarrow> example option \<Rightarrow> bool
     \<Rightarrow> 'g set \<Rightarrow> 's option \<Rightarrow> nat option \<Rightarrow> ('g, 's) tx
     \<Rightarrow> (error + ('g, 's) var) \<times> ('g, 's) tx" where
  "TensorVariable_create 0 cfg run p example_value nnmodule G src ml tx =
     (Inl RecursionError, tx)"
| "TensorVariable_create (Suc d) cfg run p example_value nnmodule G src ml tx =
     (if node_meta tx p \<noteq> None then (Inl AssertionError, tx)
      else if \<not> dynamic_propagation cfg then
        (TensorVariable_init cfg p
           (case example_value of Some (ExTensor v) \<Rightarrow> specialize cfg v | _ \<Rightarrow> unknown_props)
           G src ml, tx)
      else
        (case (case example_value of
                 Some ev \<Rightarrow> Inr ev
               | None \<Rightarrow>
                   if node_op tx p = ''call_function'' \<or> node_op tx p = ''call_method''
                   then run tx p
                   else if node_op tx p = ''call_module''
                   then (if nnmodule then run tx p else Inl AssertionError)
                   else Inl AssertionError) of
           Inl e \<Rightarrow> (Inl e, tx)
         | Inr (ExTensor v) \<Rightarrow>
             (TensorVariable_init cfg p (specialize cfg v) G src ml,
              set_node_meta p (ExTensor v) tx)
         | Inr (ExTuple vals) \<Rightarrow>
             (case unpack_examples
                     (\<lambda>q ev. TensorVariable_create d cfg run q ev False G src ml) p 0 vals tx of
                (Inl e, tx1) \<Rightarrow> (Inl e, tx1)
              | (Inr unpacked, tx1) \<Rightarrow> (Inr (TupleVariable_init unpacked G src ml), tx1))
         | Inr ev \<Rightarrow> (Inl AssertionError, tx)))"

text \<open>Python's \<open>len\<close> on a constant, and \<open>xs[i:]\<close>.\<close>

definition py_len :: "pyval \<Rightarrow> error + int" where
  "py_len v =
     (case v of
        PStr s \<Rightarrow> Inr (int (length s))
      | PTuple vs \<Rightarrow> Inr (int (length vs))
      | PList vs \<Rightarrow> Inr (int (length vs))
      | _ \<Rightarrow> Inl TypeError)"

definition py_slice_from :: "'a list \<Rightarrow> int \<Rightarrow> 'a list" where
  "py_slice_from xs i =
     (let n = int (length xs); j = (if i < 0 then max 0 (i + n) else min i n)
      in drop (nat j) xs)"

text \<open>
  \<open>check_constant_args\<close>: \<open>all\<close> stops at the first argument that is not a constant.
\<close>

fun check_constant_args :: "('g, 's) var list \<Rightarrow> error + bool" where
  "check_constant_args [] = Inr True"
| "check_constant_args (x # xs) =
     (case is_python_constant x of
        Inl e \<Rightarrow> Inl e
      | Inr True \<Rightarrow> check_constant_args xs
      | Inr False \<Rightarrow> Inr False)"

text \<open>
  \<open>unpack_var_sequence\<close> of the modelled classes, and \<open>has_unpack_var_sequence\<close>, which
  turns every exception into \<open>False\<close>.
\<close>

fun add_guards_each ::
  "config \<Rightarrow> ('g, 's) var list \<Rightarrow> 'g set \<Rightarrow> error + ('g, 's) var list" where
  "add_guards_each cfg [] gs = Inr []"
| "add_guards_each cfg (x # xs) gs =
     (case add_guards cfg x gs of
        Inl e \<Rightarrow> Inl e
      | Inr y \<Rightarrow> (case add_guards_each cfg xs gs of Inl e \<Rightarrow> Inl e | Inr ys \<Rightarrow> Inr (y # ys)))"

fun unpack_var_sequence :: "config \<Rightarrow> ('g, 's) var \<Rightarrow> error + ('g, 's) var list" where
  "unpack_var_sequence cfg (ConstantVariable G src ml v) =
     (case v of
        PStr s \<Rightarrow> Inr (map (\<lambda>c. ConstantVariable_init (PStr [c]) G None None) s)
      | PTuple vs \<Rightarrow> Inr (map (\<lambda>x. ConstantVariable_init x G None None) vs)
      | PList vs \<Rightarrow> Inr (map (\<lambda>x. ConstantVariable_init x G None None) vs)
      | PListIter vs \<Rightarrow> Inr (map (\<lambda>x. ConstantVariable_init x G None None) vs)
      | _ \<Rightarrow> Inl NotImplementedError)"
| "unpack_var_sequence cfg (ListVariable G src ml xs) = Inr xs"
| "unpack_var_sequence cfg (TupleVariable G src ml xs) = Inr xs"
| "unpack_var_sequence cfg (SliceVariable G src ml xs) = Inr xs"
| "unpack_var_sequence cfg (ListIteratorVariable G src ml xs i) =
     add_guards_each cfg (py_slice_from xs i) G"
| "unpack_var_sequence cfg v = Inl NotImplementedError"

definition has_unpack_var_sequence :: "config \<Rightarrow> ('g, 's) var \<Rightarrow> bool" where
  "has_unpack_var_sequence cfg v = (case unpack_var_sequence cfg v of Inl e \<Rightarrow> False | Inr xs \<Rightarrow> True)"

text \<open>
  \<open>BuiltinVariable.call_function\<close> for a receiver whose \<open>fn\<close> is the builtin \<open>len\<close>: the
  constant-folding branch (\<open>len\<close> is one of the foldable functions), then, past the tests
  for other builtins, the \<open>len\<close> branch. The driver's modules are not modelled, so the case
  of an \<open>NNModuleVariable\<close> argument does not arise.
\<close>

definition call_function_len ::
  "nat \<Rightarrow> config \<Rightarrow> (('g, 's) tx \<Rightarrow> nat \<Rightarrow> error + example) \<Rightarrow> ('g, 's) var
     \<Rightarrow> ('g, 's) var list \<Rightarrow> (string \<times> ('g, 's) var) list \<Rightarrow> ('g, 's) tx
     \<Rightarrow> (error + ('g, 's) var) \<times> ('g, 's) tx" where
  "call_function_len depth cfg run self args kwargs tx =
     (case check_constant_args (args @ map snd kwargs) of
        Inl e \<Rightarrow> (Inl e, tx)
      | Inr constant_args \<Rightarrow>
     (case call_options self args kwargs of
        Inl e \<Rightarrow> (Inl e, tx)
      | Inr options \<Rightarrow>
          if constant_args then
            (case as_python_constants args of
               Inl e \<Rightarrow> (Inl e, tx)
             | Inr cs \<Rightarrow>
                 (case as_python_constants (map snd kwargs) of
                    Inl e \<Rightarrow> (Inl e, tx)
                  | Inr kcs \<Rightarrow>
                      if kcs \<noteq> [] \<or> length cs \<noteq> 1 then (Inl TypeError, tx)
                      else (case py_len (hd cs) of
                              Inl e \<Rightarrow> (Inl e, tx)
                            | Inr n \<Rightarrow>
                                (Inr (ConstantVariable_init (PInt n) options None None), tx))))
          else if \<not> (kwargs = [] \<and> length args = 1) then (Inl AssertionError, tx)
          else
            (case args ! 0 of
               TensorVariable G src ml p ps \<Rightarrow>
                 (case size ps of
                    Some (n # ns) \<Rightarrow>
                      if dynamic_shapes cfg then (Inl AssertionError, tx)
                      else (Inr (ConstantVariable_init (PInt n) options None None), tx)
                  | _ \<Rightarrow>
                      let (q, tx1) = create_proxy ''call_function'' ''len'' [ProxyArg p] tx
                      in TensorVariable_create depth cfg run q None False options None None tx1)
             | ListVariable G src ml xs \<Rightarrow>
                 (Inr (ConstantVariable_init (PInt (int (length xs))) options None None), tx)
             | TupleVariable G src ml xs \<Rightarrow>
                 (Inr (ConstantVariable_init (PInt (int (length xs))) options None None), tx)
             | SliceVariable G src ml xs \<Rightarrow>
                 (Inr (ConstantVariable_init (PInt (int (length xs))) options None None), tx)
             | ConstDictVariable G src ml es \<Rightarrow>
                 (Inr (ConstantVariable_init (PInt (int (length es))) options None None), tx)
             | arg \<Rightarrow>
                 if has_unpack_var_sequence cfg arg then
                   (case unpack_var_sequence cfg arg of
                      Inl e \<Rightarrow> (Inl e, tx)
                    | Inr xs \<Rightarrow>
                        (Inr (ConstantVariable_init (PInt (int (length xs))) options None None),
                         tx))
                 else (Inl Unimplemented, tx))))"

section \<open>Key order of a \<open>ConstDictVariable\<close>\<close>


section \<open>\<open>VariableTracker.apply\<close> on a store of objects\<close>

text \<open>
  \<open>apply\<close> keys its cache by \<open>id(value)\<close>, so the objects it walks live in a store: an
  address is an index into the list of objects, and a new object is appended. The walk tells
  apart an instance of \<open>VariableTracker\<close> (with its class and the address of its
  \<open>__dict__\<close>), a \<open>list\<close>, an \<open>OrderedDict\<close>, a \<open>dict\<close>, and everything else; of the
  rest, the \<open>(key, value)\<close> tuples that \<open>OrderedDict.items()\<close> yields are kept apart.
\<close>

datatype obj =
    Instance string nat
  | PyListObj "nat list"
  | OrderedDictObj "(pyval \<times> nat) list"
  | DictObj "(pyval \<times> nat) list"
  | ItemTuple pyval nat
  | OtherObj

text \<open>
  The state of one walk: the store, the \<open>cache\<close> dict (newest entry first) and, for the
  statements below, the addresses at which the cache was missed, in order.
\<close>

record walk =
  heap :: "obj list"
  cache :: "(nat \<times> nat) list"
  visited :: "nat list"











text \<open>
  Every rewritten \<open>list\<close> and \<open>dict\<close> of the original store \<open>h\<close> holds, at each position, the
  cache entry of the part that was there; so two occurrences of one part are mapped to one
  and the same result.
\<close>

definition image_of :: "walk \<Rightarrow> nat list \<Rightarrow> nat list" where
  "image_of st vs = map (\<lambda>c. the (map_of (cache st) c)) vs"

definition shared :: "obj list \<Rightarrow> walk \<Rightarrow> bool" where
  "shared h st =
     (\<forall>a < length h. \<forall>r. map_of (cache st) a = Some r \<longrightarrow>
        (\<forall>vs. h ! a = PyListObj vs \<longrightarrow>
           set vs \<subseteq> dom (map_of (cache st)) \<and> r < length (heap st)
           \<and> heap st ! r = PyListObj (image_of st vs))
      \<and> (\<forall>kvs. h ! a = DictObj kvs \<longrightarrow>
           set (map snd kvs) \<subseteq> dom (map_of (cache st)) \<and> r < length (heap st)
           \<and> heap st ! r = DictObj (zip (map fst kvs) (image_of st (map snd kvs)))))"

text \<open>
  The invariant of a walk over the original store \<open>h\<close>, and how the state after a call
  extends the state before it: the store grows, the new cache keys are exactly the newly
  visited addresses, each visited once and each either in \<open>B\<close> or newly allocated, and the
  old cache entries stay.
\<close>

definition walk_inv :: "obj list \<Rightarrow> walk \<Rightarrow> bool" where
  "walk_inv h st =
     (prefix h (heap st) \<and> (\<forall>x \<in> dom (map_of (cache st)). x < length (heap st)) \<and> shared h st)"


section \<open>Verified properties\<close>

lemma BaseListVariable_guards_eq:
  "BaseListVariable_guards G xs = G \<union> union_guards xs"
  unfolding BaseListVariable_guards_def union_guards_def
  by (induction xs arbitrary: G) auto




text \<open>
  Claim C2. For a variable \<open>v\<close> as its constructor left it, \<open>v.add_guard(g)\<close> returns a
  variable whose guards include \<open>v.guards\<close> and \<open>g\<close>, with the source and the mutation
  marker of \<open>v\<close>, and adding \<open>g\<close> to that variable again returns the very same variable.
\<close>

theorem add_guard_superset_idempotent:
  assumes "constructed cfg v"
  shows "\<exists>v1. add_guard cfg v g = Inr v1
           \<and> guards v \<union> {g} \<subseteq> guards v1
           \<and> add_guard cfg v1 g = Inr v1
           \<and> source v1 = source v \<and> mutable_local v1 = mutable_local v"
  using assms
  by (cases v)
     (auto simp: add_guard_def ConstantVariable_init_def TensorVariable_init_def
        ListVariable_init_def TupleVariable_init_def ListIteratorVariable_init_def
        BuiltinVariable_init_def BaseListVariable_guards_eq length_Suc_conv numeral_3_eq_3)

theorem add_guard_superset_idempotent_witness:
  "constructed \<lparr>dynamic_propagation = False, dynamic_shapes = False\<rparr>
     (ListVariable {1::nat} (None :: unit option) (Some 0) [ConstantVariable {2} None None (PInt 7)])
   \<and> add_guard \<lparr>dynamic_propagation = False, dynamic_shapes = False\<rparr>
       (ListVariable {1::nat} (None :: unit option) (Some 0) [ConstantVariable {2} None None (PInt 7)]) 3
     = Inr (ListVariable {1, 2, 3} None (Some 0) [ConstantVariable {2} None None (PInt 7)])
   \<and> add_guard \<lparr>dynamic_propagation = False, dynamic_shapes = False\<rparr>
       (ListVariable {1, 2, 3::nat} (None :: unit option) (Some 0) [ConstantVariable {2} None None (PInt 7)]) 3
     = Inr (ListVariable {1, 2, 3} None (Some 0) [ConstantVariable {2} None None (PInt 7)])"
  using add_guard_superset_idempotent
    [of "\<lparr>dynamic_propagation = False, dynamic_shapes = False\<rparr>"
        "ListVariable {1::nat} (None :: unit option) (Some 0) [ConstantVariable {2} None None (PInt 7)]" 3]
  by (auto simp: add_guard_def ListVariable_init_def BaseListVariable_guards_def)

text \<open>
  Claim C9. \<open>SliceVariable\<close> built from one argument has the items \<open>(None, stop, None)\<close>,
  from two \<open>(start, stop, None)\<close>, from three \<open>(start, stop, step)\<close>, where each missing
  field is \<open>ConstantVariable(None)\<close>; the guards of the items are added to the given guards.
\<close>

theorem SliceVariable_normalization:
  "SliceVariable_init [stop] G src ml
     = Inr (SliceVariable (G \<union> guards stop) src ml
              [ConstantVariable {} None None PNone, stop, ConstantVariable {} None None PNone])
   \<and> SliceVariable_init [start, stop] G src ml
     = Inr (SliceVariable (G \<union> guards start \<union> guards stop) src ml
              [start, stop, ConstantVariable {} None None PNone])
   \<and> SliceVariable_init [start, stop, step] G src ml
     = Inr (SliceVariable (G \<union> guards start \<union> guards stop \<union> guards step) src ml
              [start, stop, step])"
  by (simp add: BaseListVariable_guards_def const_None_def ConstantVariable_init_def)

theorem SliceVariable_normalization_witness:
  "SliceVariable_init [ConstantVariable {} None None (PInt 5)] ({} :: nat set) (None :: unit option) None
     = Inr (SliceVariable {} None None
              [ConstantVariable {} None None PNone, ConstantVariable {} None None (PInt 5),
               ConstantVariable {} None None PNone])
   \<and> SliceVariable_init [ConstantVariable {} None None (PInt 1), ConstantVariable {} None None (PInt 5)]
       ({} :: nat set) (None :: unit option) None
     = Inr (SliceVariable {} None None
              [ConstantVariable {} None None (PInt 1), ConstantVariable {} None None (PInt 5),
               ConstantVariable {} None None PNone])
   \<and> SliceVariable_init [ConstantVariable {} None None (PInt 1), ConstantVariable {} None None (PInt 5),
         ConstantVariable {} None None (PInt 2)] ({} :: nat set) (None :: unit option) None
     = Inr (SliceVariable {} None None
              [ConstantVariable {} None None (PInt 1), ConstantVariable {} None None (PInt 5),
               ConstantVariable {} None None (PInt 2)])"
  using SliceVariable_normalization
    [of "ConstantVariable {} None None (PInt 5)" "{} :: nat set" "None :: unit option" None
        "ConstantVariable {} None None (PInt 1)" "ConstantVariable {} None None (PInt 2)"]
  by simp

text \<open>
  The constructors of the \<open>BaseListVariable\<close> family put the guards of every item into the
  guards of the new container.
\<close>

lemma BaseListVariable_folds_item_guards:
  "x \<in> set xs \<Longrightarrow> guards x \<subseteq> guards (ListVariable_init xs G src ml)
     \<and> guards x \<subseteq> guards (TupleVariable_init xs G src ml)"
  by (auto simp: ListVariable_init_def TupleVariable_init_def BaseListVariable_guards_eq union_guards_def)

text \<open>
  Claim C6. \<open>ConstDictVariable.__init__\<close> does not do the same: built from \<open>{"a": c}\<close>,
  where \<open>c\<close> carries the guard 1, and no \<open>guards\<close> argument, the container has no guard.
\<close>

theorem ConstDictVariable_init_drops_item_guards:
  "ConstDictVariable_init (PlainDict [(PStr ''a'', ConstantVariable {1::nat} (None :: unit option) None (PInt 1))])
      {} None None
     = Inr (ConstDictVariable {} None None [(PStr ''a'', ConstantVariable {1} None None (PInt 1))])
   \<and> \<not> guards (ConstantVariable {1::nat} (None :: unit option) None (PInt 1))
        \<subseteq> guards (ConstDictVariable {} (None :: unit option) None
                    [(PStr ''a'', ConstantVariable {1} None None (PInt 1))])"
  by simp

lemma visit_each_PyVar:
  "visit_each (map PyVar vs) acc = Inr (acc \<union> union_guards vs)"
  by (induction vs arbitrary: acc) (auto simp: union_guards_def)

lemma visit_each_PyVar_snd:
  "visit_each (map (PyVar \<circ> snd) kws) acc = Inr (acc \<union> union_guards (map snd kws))"
  by (induction kws arbitrary: acc) (auto simp: union_guards_def)

lemma call_options_eq:
  "call_options self args kwargs
     = Inr (guards self \<union> union_guards args \<union> union_guards (map snd kwargs))"
  by (simp add: call_options_def propagate_def visit_each_PyVar visit_each_PyVar_snd)

lemma union_guards_simps:
  "union_guards [] = {}"
  "union_guards (x # xs) = guards x \<union> union_guards xs"
  "union_guards (xs @ ys) = union_guards xs \<union> union_guards ys"
  by (auto simp: union_guards_def)




lemma clone_guards_constructed:
  "constructed cfg v \<Longrightarrow> \<exists>v'. clone_guards cfg v G' = Inr v' \<and> G' \<subseteq> guards v'
      \<and> constructed cfg v'"
  by (cases v)
     (auto simp: ConstantVariable_init_def TensorVariable_init_def
        ListVariable_init_def TupleVariable_init_def ListIteratorVariable_init_def
        BuiltinVariable_init_def BaseListVariable_guards_eq length_Suc_conv numeral_3_eq_3)

lemma next_variables_step:
  assumes "0 \<le> i" "i < int (length xs)" "constructed cfg (xs ! nat i)"
  shows "\<exists>item'. add_guards cfg (xs ! nat i) G = Inr item'
           \<and> guards (xs ! nat i) \<union> G \<subseteq> guards item'
           \<and> next_variables cfg (ListIteratorVariable G src (Some t) xs i) tx
               = (Inr (item', ListIteratorVariable G None (Some (next_token tx)) xs (i + 1)),
                  tx\<lparr>next_token := Suc (next_token tx)\<rparr>)"
proof -
  obtain item' where a: "add_guards cfg (xs ! nat i) G = Inr item'"
      and b: "guards (xs ! nat i) \<union> G \<subseteq> guards item'"
    using clone_guards_constructed [OF assms(3), of "guards (xs ! nat i) \<union> G"]
    by (auto simp: add_guards_def)
  have "py_getitem xs i = Inr (xs ! nat i)"
    using assms by (simp add: py_getitem_def)
  then show ?thesis
    using a b assms
    by (simp add: next_variables_def MutableLocal_def propagate_def
          ListIteratorVariable_init_def)
qed

lemma advance_steps:
  "k \<le> length xs - j \<Longrightarrow> j \<le> length xs \<Longrightarrow> list_all (constructed cfg) xs \<Longrightarrow>
     advance cfg k (ListIteratorVariable G src (Some t) xs (int j)) tx
       = (Inr (ListIteratorVariable G (if k = 0 then src else None)
                 (Some (if k = 0 then t else next_token tx + k - 1)) xs (int (j + k))),
          tx\<lparr>next_token := next_token tx + k\<rparr>)"
proof (induction k arbitrary: j src t tx)
  case 0
  then show ?case by simp
next
  case (Suc k)
  have j: "int j < int (length xs)" using Suc.prems by simp
  have c: "constructed cfg (xs ! nat (int j))"
    using Suc.prems j by (simp add: list_all_length)
  obtain item' where s: "next_variables cfg (ListIteratorVariable G src (Some t) xs (int j)) tx
               = (Inr (item', ListIteratorVariable G None (Some (next_token tx)) xs (int j + 1)),
                  tx\<lparr>next_token := Suc (next_token tx)\<rparr>)"
    using next_variables_step [OF _ j c, of G src t tx] by auto
  have e: "int j + 1 = int (Suc j)" by simp
  show ?case
    using Suc.IH [of "Suc j" None "next_token tx" "tx\<lparr>next_token := Suc (next_token tx)\<rparr>"]
      Suc.prems
    by (simp add: s e)
qed

lemma next_variables_stop:
  "int (length xs) \<le> i \<Longrightarrow>
     next_variables cfg (ListIteratorVariable G src (Some t) xs i) tx = (Inl StopIteration, tx)"
  by (simp add: next_variables_def)

lemma advance_exhausted:
  "k = length xs - j \<Longrightarrow> j \<le> length xs \<Longrightarrow> list_all (constructed cfg) xs \<Longrightarrow>
     fst (advance cfg (Suc k) (ListIteratorVariable G src (Some t) xs (int j)) tx)
       = Inl StopIteration"
proof (induction k arbitrary: j src t tx)
  case 0
  then show ?case by (simp add: next_variables_stop)
next
  case (Suc k)
  have j: "int j < int (length xs)" using Suc.prems by simp
  have c: "constructed cfg (xs ! nat (int j))"
    using Suc.prems j by (simp add: list_all_length)
  obtain item' where s: "next_variables cfg (ListIteratorVariable G src (Some t) xs (int j)) tx
               = (Inr (item', ListIteratorVariable G None (Some (next_token tx)) xs (int j + 1)),
                  tx\<lparr>next_token := Suc (next_token tx)\<rparr>)"
    using next_variables_step [OF _ j c, of G src t tx] by auto
  have e: "int j + 1 = int (Suc j)" by simp
  have ih: "fst (advance cfg (Suc k) (ListIteratorVariable G None (Some (next_token tx)) xs
               (int (Suc j))) (tx\<lparr>next_token := Suc (next_token tx)\<rparr>)) = Inl StopIteration"
  proof (rule Suc.IH)
    show "k = length xs - Suc j" using Suc.prems by simp
    show "Suc j \<le> length xs" using Suc.prems by simp
    show "list_all (constructed cfg) xs" using Suc.prems by simp
  qed
  have "advance cfg (Suc (Suc k)) (ListIteratorVariable G src (Some t) xs (int j)) tx
      = advance cfg (Suc k) (ListIteratorVariable G None (Some (next_token tx)) xs (int j + 1))
          (tx\<lparr>next_token := Suc (next_token tx)\<rparr>)"
    by (subst advance.simps(2)) (simp only: s prod.case sum.case)
  then show ?case
    using ih by (simp only: e)
qed

text \<open>
  Claim C4. \<open>next_variables\<close> on an iterator without a mutation marker fails its assertion.
  With a marker and an index that is not negative, it raises \<open>StopIteration\<close> exactly when
  the index has reached the number of items, and otherwise returns the item at the index
  with the iterator's guards added, paired with a new iterator over the same items at the
  next index with a new marker; the receiver is a value and is not changed. Starting at
  index 0 over \<open>n\<close> items, every run of at most \<open>n\<close> calls succeeds and call \<open>n + 1\<close>
  raises \<open>StopIteration\<close>.
\<close>

theorem next_variables_exhaustion:
  "it = ListIteratorVariable G src ml xs i \<Longrightarrow>
     (ml = None \<longrightarrow> next_variables cfg it tx = (Inl AssertionError, tx))
   \<and> (ml = Some t \<and> 0 \<le> i \<longrightarrow>
        (fst (next_variables cfg it tx) = Inl StopIteration \<longleftrightarrow> int (length xs) \<le> i)
      \<and> (int (length xs) \<le> i \<longrightarrow> next_variables cfg it tx = (Inl StopIteration, tx))
      \<and> (i < int (length xs) \<and> constructed cfg (xs ! nat i) \<longrightarrow>
           (\<exists>item'. add_guards cfg (xs ! nat i) G = Inr item'
              \<and> guards (xs ! nat i) \<union> G \<subseteq> guards item'
              \<and> next_variables cfg it tx
                  = (Inr (item', ListIteratorVariable G None (Some (next_token tx)) xs (i + 1)),
                     tx\<lparr>next_token := Suc (next_token tx)\<rparr>)))
      \<and> (t < next_token tx \<longrightarrow> next_token tx \<noteq> t))
   \<and> (ml = Some t \<and> i = 0 \<and> list_all (constructed cfg) xs \<longrightarrow>
        (k \<le> length xs \<longrightarrow> (\<exists>it' tx'. advance cfg k it tx = (Inr it', tx')))
      \<and> fst (advance cfg (Suc (length xs)) it tx) = Inl StopIteration)"
proof -
  assume it: "it = ListIteratorVariable G src ml xs i"
  have none: "ml = None \<Longrightarrow> next_variables cfg it tx = (Inl AssertionError, tx)"
    by (simp add: it next_variables_def)
  have stop: "ml = Some t \<Longrightarrow> int (length xs) \<le> i
      \<Longrightarrow> next_variables cfg it tx = (Inl StopIteration, tx)"
    by (simp add: it next_variables_stop)
  have nostop: "ml = Some t \<Longrightarrow> 0 \<le> i \<Longrightarrow> i < int (length xs)
      \<Longrightarrow> fst (next_variables cfg it tx) \<noteq> Inl StopIteration"
    by (cases "xs ! nat i")
       (auto simp: it next_variables_def py_getitem_def add_guards_def MutableLocal_def
          propagate_def TensorVariable_init_def split: sum.splits list.splits
          elim!: SliceVariable_init.elims)
  have step: "ml = Some t \<Longrightarrow> 0 \<le> i \<Longrightarrow> i < int (length xs) \<Longrightarrow> constructed cfg (xs ! nat i)
      \<Longrightarrow> \<exists>item'. add_guards cfg (xs ! nat i) G = Inr item'
              \<and> guards (xs ! nat i) \<union> G \<subseteq> guards item'
              \<and> next_variables cfg it tx
                  = (Inr (item', ListIteratorVariable G None (Some (next_token tx)) xs (i + 1)),
                     tx\<lparr>next_token := Suc (next_token tx)\<rparr>)"
    using next_variables_step [of i xs cfg G src t tx] by (simp add: it)
  have adv: "ml = Some t \<Longrightarrow> i = 0 \<Longrightarrow> list_all (constructed cfg) xs \<Longrightarrow> k \<le> length xs
      \<Longrightarrow> \<exists>it' tx'. advance cfg k it tx = (Inr it', tx')"
    using advance_steps [of k xs 0 cfg G src t tx] by (simp add: it)
  have last: "ml = Some t \<Longrightarrow> i = 0 \<Longrightarrow> list_all (constructed cfg) xs
      \<Longrightarrow> fst (advance cfg (Suc (length xs)) it tx) = Inl StopIteration"
    using advance_exhausted [of "length xs" xs 0 cfg G src t tx] by (simp add: it)
  have iff: "ml = Some t \<Longrightarrow> 0 \<le> i
      \<Longrightarrow> (fst (next_variables cfg it tx) = Inl StopIteration) = (int (length xs) \<le> i)"
  proof (cases "int (length xs) \<le> i")
    case True
    assume "ml = Some t"
    with True stop show ?thesis by simp
  next
    case False
    assume "ml = Some t" "0 \<le> i"
    with False nostop show ?thesis by simp
  qed
  have fresh: "t < next_token tx \<Longrightarrow> next_token tx \<noteq> t" by simp
  show ?thesis
    using none iff stop step adv last fresh by blast
qed

theorem next_variables_exhaustion_witness:
  "next_variables \<lparr>dynamic_propagation = False, dynamic_shapes = False\<rparr>
      (ListIteratorVariable {1::nat} (None :: unit option) (Some 0)
         [ConstantVariable {} None None (PInt 10), ConstantVariable {2} None None (PInt 20)] 0)
      \<lparr>next_token = 1, replacements = [], graph = []\<rparr>
     = (Inr (ConstantVariable {1} None None (PInt 10),
             ListIteratorVariable {1} None (Some 1)
               [ConstantVariable {} None None (PInt 10), ConstantVariable {2} None None (PInt 20)] 1),
        \<lparr>next_token = 2, replacements = [], graph = []\<rparr>)
   \<and> fst (advance \<lparr>dynamic_propagation = False, dynamic_shapes = False\<rparr> (Suc (Suc (Suc 0)))
      (ListIteratorVariable {1::nat} (None :: unit option) (Some 0)
         [ConstantVariable {} None None (PInt 10), ConstantVariable {2} None None (PInt 20)] 0)
      \<lparr>next_token = 1, replacements = [], graph = []\<rparr>) = Inl StopIteration
   \<and> (\<exists>it' tx'. advance \<lparr>dynamic_propagation = False, dynamic_shapes = False\<rparr> (Suc (Suc 0))
      (ListIteratorVariable {1::nat} (None :: unit option) (Some 0)
         [ConstantVariable {} None None (PInt 10), ConstantVariable {2} None None (PInt 20)] 0)
      \<lparr>next_token = 1, replacements = [], graph = []\<rparr> = (Inr it', tx'))"
  using next_variables_exhaustion
    [of "ListIteratorVariable {1::nat} (None :: unit option) (Some 0)
         [ConstantVariable {} None None (PInt 10), ConstantVariable {2} None None (PInt 20)] 0"
        "{1}" None "Some 0"
        "[ConstantVariable {} None None (PInt 10), ConstantVariable {2} None None (PInt 20)]" 0
        "\<lparr>dynamic_propagation = False, dynamic_shapes = False\<rparr>"
        "\<lparr>next_token = 1, replacements = [], graph = []\<rparr>" 0 "Suc (Suc 0)"]
  by (auto simp: add_guards_def ConstantVariable_init_def)

text \<open>
  Claim C10. On a \<open>ConstDictVariable\<close> with a mutation marker, \<open>__setattr__\<close> with a
  literal, hashable key and a value requests the substitution of the receiver by the
  updated dict and returns \<open>None\<close>, no tracked variable, whereas \<open>append\<close> and \<open>insert\<close>
  on a \<open>ListVariable\<close> return \<open>ConstantVariable(None)\<close>.
\<close>
theorem ConstDictVariable_setattr_returns_nothing:
  "self = ConstDictVariable G src (Some t) es \<Longrightarrow> key = ConstantVariable Gk srck mlk k \<Longrightarrow>
   hashable k \<Longrightarrow>
     ConstDictVariable_call_method self ''__setattr__'' [key, v] [] tx
       = (Inr None,
          tx\<lparr>next_token := Suc (next_token tx),
             replacements := replacements tx @
               [(self, ConstDictVariable (G \<union> Gk \<union> guards v) None (Some (next_token tx))
                         (od_setitem es k v))]\<rparr>)
   \<and> fst (ListVariable_call_method (ListVariable G src (Some t) xs) ''append'' [v] [] tx)
       = Inr (Some (ConstantVariable (G \<union> guards v) None None PNone))
   \<and> (as_python_constant idx = Inr (PInt i) \<longrightarrow>
        fst (ListVariable_call_method (ListVariable G src (Some t) xs) ''insert'' [idx, v] [] tx)
          = Inr (Some (ConstantVariable (G \<union> guards idx \<union> guards v) None None PNone)))"
  by (simp add: ConstDictVariable_call_method_def ListVariable_call_method_def call_options_eq
        union_guards_simps is_python_constant_def MutableLocal_def replace_all_def
        ConstantVariable_init_def py_index_def Un_assoc)

theorem ConstDictVariable_setattr_returns_nothing_witness:
  "ConstDictVariable_call_method
      (ConstDictVariable {1::nat} (None :: unit option) (Some 0)
         [(PStr ''a'', ConstantVariable {} None None (PInt 10))])
      ''__setattr__''
      [ConstantVariable {} None None (PStr ''b''), ConstantVariable {2} None None (PInt 20)] []
      \<lparr>next_token = 1, replacements = [], graph = []\<rparr>
    = (Inr None,
       \<lparr>next_token = 2,
        replacements =
          [(ConstDictVariable {1} None (Some 0) [(PStr ''a'', ConstantVariable {} None None (PInt 10))],
            ConstDictVariable {1, 2} None (Some 1)
              [(PStr ''a'', ConstantVariable {} None None (PInt 10)),
               (PStr ''b'', ConstantVariable {2} None None (PInt 20))])],
        graph = []\<rparr>)"
  using ConstDictVariable_setattr_returns_nothing
    [of "ConstDictVariable {1::nat} (None :: unit option) (Some 0)
         [(PStr ''a'', ConstantVariable {} None None (PInt 10))]"
        "{1}" None 0 "[(PStr ''a'', ConstantVariable {} None None (PInt 10))]"
        "ConstantVariable {} None None (PStr ''b'')" "{}" None None "PStr ''b''"
        "ConstantVariable {2} None None (PInt 20)"
        "\<lparr>next_token = 1, replacements = [], graph = []\<rparr>" "[]"
        "ConstantVariable {} None None (PInt 0)" 0]
  by (simp add: od_setitem_def insert_commute)














text \<open>
  With dynamic propagation on, \<open>create\<close> runs the new node's target, \<open>len\<close>, whose result is
  an integer and neither a tensor nor a tuple, and the final \<open>assert False\<close> is reached.
\<close>
lemma len_of_tensor_dynamic_propagation:
  "dynamic_propagation cfg \<Longrightarrow> size ps = None \<Longrightarrow>
   run (snd (create_proxy ''call_function'' ''len'' [ProxyArg p] tx)) (length (graph tx)) = Inr ExOther
   \<Longrightarrow> fst (call_function_len (Suc d) cfg run (BuiltinVariable Gs srcs mls ''len'')
            [TensorVariable Ga srca mla p ps] [] tx) = Inl AssertionError"
  by (simp add: call_function_len_def is_python_constant_def call_options_eq
        union_guards_simps create_proxy_def node_meta_def node_op_def nth_append)






lemma shared_visited [simp]: "shared h (st\<lparr>visited := v\<rparr>) = shared h st"
  by (simp add: shared_def image_of_def)

lemma walk_inv_visited [simp]: "walk_inv h (st\<lparr>visited := v\<rparr>) = walk_inv h st"
  by (simp add: walk_inv_def)














end
